theory Spec2Isabelle
  imports Complex_Main
begin

section \<open>The animation engine as the hooks see it\<close>

text \<open>
  The hooks of \<^verbatim>\<open>src/hooks\<close> (and their compiled copies under \<^verbatim>\<open>lib/hooks\<close>) never
  interpolate anything themselves: they allocate \<^verbatim>\<open>Animated.Value\<close> cells, build a tree of
  \<^verbatim>\<open>Animated.timing\<close>, \<^verbatim>\<open>Animated.spring\<close>, \<^verbatim>\<open>Animated.sequence\<close> and
  \<^verbatim>\<open>Animated.parallel\<close> nodes over them and call \<^verbatim>\<open>.start()\<close> on its root, or call
  \<^verbatim>\<open>setValue\<close> on a cell. The model keeps exactly that: the tree as a datatype and the calls
  made to the engine as a list of commands. JavaScript numbers are modelled as reals (the
  rounding of IEEE doubles is not part of the model); an optional field that is
  \<^verbatim>\<open>undefined\<close> is \<open>None\<close>.
\<close>

datatype easing =
    Easing_quad
  | Easing_cubic
  | Easing_ease
  | Easing_linear
  | Easing_out easing
  | Easing_function "real \<Rightarrow> real"

text \<open>The configuration objects passed to \<^verbatim>\<open>Animated.timing\<close> and \<^verbatim>\<open>Animated.spring\<close>.\<close>

record animation_config =
  toValue :: real
  useNativeDriver :: bool

record timing_config = animation_config +
  duration :: real
  easing :: "easing option"

record spring_config = animation_config +
  tension :: real
  friction :: real

datatype 'v animation =
    Timing 'v timing_config
  | Spring 'v spring_config
  | Sequence "'v animation list"
  | Parallel "'v animation list"

datatype 'v command =
    SetValue 'v real
  | Start "'v animation"

text \<open>
  A mounted component that uses one of the hooks: the cells held by \<^verbatim>\<open>useRef\<close> (their
  value as last written by the hook), the dependency array of the last run of the
  hook's effect (\<open>None\<close> before the first run) and the commands given to the engine so far,
  oldest first.
\<close>

record ('v, 'd) component =
  cells :: "'v \<Rightarrow> real"
  last_deps :: "'d option"
  engine_log :: "'v command list"

fun perform :: "('v, 'd) component \<Rightarrow> 'v command \<Rightarrow> ('v, 'd) component" where
  "perform c (SetValue v x) = c\<lparr>cells := (cells c)(v := x), engine_log := engine_log c @ [SetValue v x]\<rparr>"
| "perform c (Start a) = c\<lparr>engine_log := engine_log c @ [Start a]\<rparr>"

text \<open>
  \<^verbatim>\<open>useEffect(body, deps)\<close>: the body runs after the first render and after every render
  whose dependency array differs from the one of the last run.
\<close>

definition useEffect :: "'d \<Rightarrow> 'v command list \<Rightarrow> ('v, 'd) component \<Rightarrow> ('v, 'd) component" where
  "useEffect deps body c =
     (if last_deps c = Some deps then c else foldl perform (c\<lparr>last_deps := Some deps\<rparr>) body)"

text \<open>The animations started so far: the \<^verbatim>\<open>.start()\<close> calls of the log.\<close>

definition started :: "('v, 'd) component \<Rightarrow> 'v animation list" where
  "started c = concat (map (\<lambda>k. case k of Start a \<Rightarrow> [a] | SetValue v x \<Rightarrow> []) (engine_log c))"

subsection \<open>What the engine has issued, given what has settled\<close>

text \<open>
  Modelled from the spec: the engine itself (\<^verbatim>\<open>Animated\<close> of the host framework) is no code
  of this repository. Its contract, as the specification words it: in a sequence each
  member starts only after the previous member has settled; in a parallel group all
  members are issued in the same tick. \<open>issued D a\<close> lists the timing and spring nodes of
  the started composition \<open>a\<close> that the engine has issued once the nodes in \<open>D\<close> have
  settled; \<open>settled D a\<close> says that all of \<open>a\<close> has settled.
\<close>

fun settled :: "'v animation set \<Rightarrow> 'v animation \<Rightarrow> bool" where
  "settled D (Timing v c) = (Timing v c \<in> D)"
| "settled D (Spring v c) = (Spring v c \<in> D)"
| "settled D (Sequence as) = list_all (settled D) as"
| "settled D (Parallel as) = list_all (settled D) as"

fun issued :: "'v animation set \<Rightarrow> 'v animation \<Rightarrow> 'v animation list"
  and issued_seq :: "'v animation set \<Rightarrow> 'v animation list \<Rightarrow> 'v animation list" where
  "issued D (Timing v c) = [Timing v c]"
| "issued D (Spring v c) = [Spring v c]"
| "issued D (Parallel as) = concat (map (issued D) as)"
| "issued D (Sequence as) = issued_seq D as"
| "issued_seq D [] = []"
| "issued_seq D (a # as) = issued D a @ (if settled D a then issued_seq D as else [])"

text \<open>The timing and spring nodes of a composition, left to right.\<close>

fun nodes :: "'v animation \<Rightarrow> 'v animation list" where
  "nodes (Timing v c) = [Timing v c]"
| "nodes (Spring v c) = [Spring v c]"
| "nodes (Sequence as) = concat (map nodes as)"
| "nodes (Parallel as) = concat (map nodes as)"

section \<open>Staggered entrance: \<^verbatim>\<open>src/hooks/useStaggeredEntrance.ts\<close>\<close>

datatype entrance_value =
    iconScale
  | iconOpacity
  | titleOpacity
  | titleTranslateY
  | descriptionOpacity
  | descriptionTranslateY
  | featuresOpacity
  | featuresTranslateY

record UseStaggeredEntranceOptions =
  se_delay :: "real option"
  se_duration :: "real option"
  se_translateYOffset :: "real option"
  se_enabled :: "bool option"

text \<open>The destructuring with defaults at the head of the hook.\<close>

definition the_default :: "'a \<Rightarrow> 'a option \<Rightarrow> 'a" where
  "the_default d x = (case x of None \<Rightarrow> d | Some y \<Rightarrow> y)"

definition se_delay_of :: "UseStaggeredEntranceOptions \<Rightarrow> real" where
  "se_delay_of options = the_default 100 (se_delay options)"

definition se_duration_of :: "UseStaggeredEntranceOptions \<Rightarrow> real" where
  "se_duration_of options = the_default 600 (se_duration options)"

definition se_translateYOffset_of :: "UseStaggeredEntranceOptions \<Rightarrow> real" where
  "se_translateYOffset_of options = the_default 30 (se_translateYOffset options)"

definition se_enabled_of :: "UseStaggeredEntranceOptions \<Rightarrow> bool" where
  "se_enabled_of options = the_default True (se_enabled options)"

text \<open>The eight \<^verbatim>\<open>useRef(new Animated.Value(...))\<close> cells, at the first render.\<close>

fun useStaggeredEntrance_refs :: "UseStaggeredEntranceOptions \<Rightarrow> entrance_value \<Rightarrow> real" where
  "useStaggeredEntrance_refs options iconScale = 0"
| "useStaggeredEntrance_refs options iconOpacity = 0"
| "useStaggeredEntrance_refs options titleOpacity = 0"
| "useStaggeredEntrance_refs options titleTranslateY = se_translateYOffset_of options"
| "useStaggeredEntrance_refs options descriptionOpacity = 0"
| "useStaggeredEntrance_refs options descriptionTranslateY = se_translateYOffset_of options"
| "useStaggeredEntrance_refs options featuresOpacity = 0"
| "useStaggeredEntrance_refs options featuresTranslateY = se_translateYOffset_of options"

text \<open>The four parallel groups of the sequence, in the order of the source.\<close>

definition icon_group :: "real \<Rightarrow> entrance_value animation" where
  "icon_group dur = Parallel
     [Spring iconScale \<lparr>toValue = 1, useNativeDriver = True, tension = 50, friction = 7\<rparr>,
      Timing iconOpacity \<lparr>toValue = 1, useNativeDriver = True, duration = dur * 0.8, easing = None\<rparr>]"

definition text_group :: "entrance_value \<Rightarrow> entrance_value \<Rightarrow> real \<Rightarrow> entrance_value animation" where
  "text_group fade shift dur = Parallel
     [Timing fade \<lparr>toValue = 1, useNativeDriver = True, duration = dur, easing = None\<rparr>,
      Spring shift \<lparr>toValue = 0, useNativeDriver = True, tension = 50, friction = 8\<rparr>]"

definition entrance_groups :: "real \<Rightarrow> entrance_value animation list" where
  "entrance_groups dur =
     [icon_group dur,
      text_group titleOpacity titleTranslateY dur,
      text_group descriptionOpacity descriptionTranslateY dur,
      text_group featuresOpacity featuresTranslateY dur]"

definition entrance_sequence :: "real \<Rightarrow> entrance_value animation" where
  "entrance_sequence dur = Sequence (entrance_groups dur)"

text \<open>The body of the effect: the short circuit when disabled, the sequence otherwise.\<close>

definition useStaggeredEntrance_effect :: "UseStaggeredEntranceOptions \<Rightarrow> entrance_value command list" where
  "useStaggeredEntrance_effect options =
     (if \<not> se_enabled_of options then
        [SetValue iconScale 1, SetValue iconOpacity 1,
         SetValue titleOpacity 1, SetValue titleTranslateY 0,
         SetValue descriptionOpacity 1, SetValue descriptionTranslateY 0,
         SetValue featuresOpacity 1, SetValue featuresTranslateY 0]
      else [Start (entrance_sequence (se_duration_of options))])"

text \<open>
  The dependency array: \<^verbatim>\<open>enabled, delay, duration, translateYOffset\<close> and the eight cells,
  which are the same objects at every render and are left out.
\<close>

type_synonym entrance_deps = "bool \<times> real \<times> real \<times> real"

definition useStaggeredEntrance_deps :: "UseStaggeredEntranceOptions \<Rightarrow> entrance_deps" where
  "useStaggeredEntrance_deps options =
     (se_enabled_of options, se_delay_of options, se_duration_of options, se_translateYOffset_of options)"

text \<open>One render of the hook in a mounted component, and the first render (the mount).\<close>

definition useStaggeredEntrance ::
  "UseStaggeredEntranceOptions \<Rightarrow> (entrance_value, entrance_deps) component \<Rightarrow> (entrance_value, entrance_deps) component" where
  "useStaggeredEntrance options c =
     useEffect (useStaggeredEntrance_deps options) (useStaggeredEntrance_effect options) c"

definition useStaggeredEntrance_mount ::
  "UseStaggeredEntranceOptions \<Rightarrow> (entrance_value, entrance_deps) component" where
  "useStaggeredEntrance_mount options =
     useStaggeredEntrance options
       \<lparr>cells = useStaggeredEntrance_refs options, last_deps = None, engine_log = []\<rparr>"

text \<open>A mount followed by further renders, each with its own options.\<close>

definition useStaggeredEntrance_renders ::
  "UseStaggeredEntranceOptions \<Rightarrow> UseStaggeredEntranceOptions list \<Rightarrow> (entrance_value, entrance_deps) component" where
  "useStaggeredEntrance_renders first rest =
     fold useStaggeredEntrance rest (useStaggeredEntrance_mount first)"

text \<open>
  Two components agree on their cells and on their log, and on the dependency arrays of
  their last effect run but for the \<^verbatim>\<open>delay\<close> entries, which are \<open>x1\<close> and \<open>x2\<close>.
\<close>

definition same_but_delay ::
  "real \<Rightarrow> real \<Rightarrow> (entrance_value, entrance_deps) component \<Rightarrow>
   (entrance_value, entrance_deps) component \<Rightarrow> bool" where
  "same_but_delay x1 x2 c1 c2 =
     (cells c1 = cells c2 \<and> engine_log c1 = engine_log c2 \<and>
      (case (last_deps c1, last_deps c2) of
         (None, None) \<Rightarrow> True
       | (Some (e1, l1, r1), Some (e2, l2, r2)) \<Rightarrow> e1 = e2 \<and> r1 = r2 \<and> l1 = x1 \<and> l2 = x2
       | _ \<Rightarrow> False))"

section \<open>Bottom sheet: \<^verbatim>\<open>lib/hooks/useBottomSheetAnimation.js\<close>\<close>

text \<open>
  \<^verbatim>\<open>SCREEN_HEIGHT\<close> is read once from \<^verbatim>\<open>Dimensions.get('window')\<close> when the module is loaded;
  it is a parameter \<open>H\<close> of the model.
\<close>

datatype sheet_value = slideAnim | backdropOpacity

record UseBottomSheetAnimationOptions =
  bs_duration :: "real option"
  bs_closeDuration :: "real option"

definition bs_duration_of :: "UseBottomSheetAnimationOptions \<Rightarrow> real" where
  "bs_duration_of options = the_default 300 (bs_duration options)"

definition bs_closeDuration_of :: "UseBottomSheetAnimationOptions \<Rightarrow> real" where
  "bs_closeDuration_of options = the_default 250 (bs_closeDuration options)"

fun useBottomSheetAnimation_refs :: "real \<Rightarrow> sheet_value \<Rightarrow> real" where
  "useBottomSheetAnimation_refs H slideAnim = H"
| "useBottomSheetAnimation_refs H backdropOpacity = 0"

definition useBottomSheetAnimation_effect ::
  "real \<Rightarrow> bool \<Rightarrow> UseBottomSheetAnimationOptions \<Rightarrow> sheet_value command list" where
  "useBottomSheetAnimation_effect H visible options =
     (if visible then
        [Start (Parallel
          [Timing slideAnim
             \<lparr>toValue = 0, useNativeDriver = True, duration = bs_duration_of options, easing = None\<rparr>,
           Timing backdropOpacity
             \<lparr>toValue = 1, useNativeDriver = True, duration = bs_duration_of options, easing = None\<rparr>])]
      else
        [Start (Parallel
          [Timing slideAnim
             \<lparr>toValue = H, useNativeDriver = True, duration = bs_closeDuration_of options, easing = None\<rparr>,
           Timing backdropOpacity
             \<lparr>toValue = 0, useNativeDriver = True, duration = bs_closeDuration_of options, easing = None\<rparr>])])"

text \<open>The dependency array: \<^verbatim>\<open>visible, duration, closeDuration\<close> and the two cells.\<close>

type_synonym sheet_deps = "bool \<times> real \<times> real"

definition useBottomSheetAnimation_deps :: "bool \<Rightarrow> UseBottomSheetAnimationOptions \<Rightarrow> sheet_deps" where
  "useBottomSheetAnimation_deps visible options =
     (visible, bs_duration_of options, bs_closeDuration_of options)"

definition useBottomSheetAnimation ::
  "real \<Rightarrow> bool \<Rightarrow> UseBottomSheetAnimationOptions \<Rightarrow>
   (sheet_value, sheet_deps) component \<Rightarrow> (sheet_value, sheet_deps) component" where
  "useBottomSheetAnimation H visible options c =
     useEffect (useBottomSheetAnimation_deps visible options)
       (useBottomSheetAnimation_effect H visible options) c"

definition useBottomSheetAnimation_mount ::
  "real \<Rightarrow> bool \<Rightarrow> UseBottomSheetAnimationOptions \<Rightarrow> (sheet_value, sheet_deps) component" where
  "useBottomSheetAnimation_mount H visible options =
     useBottomSheetAnimation H visible options
       \<lparr>cells = useBottomSheetAnimation_refs H, last_deps = None, engine_log = []\<rparr>"

section \<open>Splash: \<^verbatim>\<open>src/hooks/useSplashAnimation.ts\<close>\<close>















section \<open>Presets: \<^verbatim>\<open>lib/utils/animationPresets.js\<close>\<close>

record AnimationTimingConfig =
  at_duration :: real
  at_easing :: "easing option"
  at_useNativeDriver :: "bool option"

record AnimationSpringConfig =
  as_tension :: real
  as_friction :: real
  as_useNativeDriver :: "bool option"

definition AnimationPresets_fast :: AnimationTimingConfig where
  "AnimationPresets_fast =
     \<lparr>at_duration = 200, at_easing = Some (Easing_out Easing_quad), at_useNativeDriver = Some True\<rparr>"

definition AnimationPresets_normal :: AnimationTimingConfig where
  "AnimationPresets_normal =
     \<lparr>at_duration = 300, at_easing = Some (Easing_out Easing_quad), at_useNativeDriver = Some True\<rparr>"

definition AnimationPresets_slow :: AnimationTimingConfig where
  "AnimationPresets_slow =
     \<lparr>at_duration = 500, at_easing = Some (Easing_out Easing_quad), at_useNativeDriver = Some True\<rparr>"

definition AnimationPresets_spring :: AnimationSpringConfig where
  "AnimationPresets_spring = \<lparr>as_tension = 100, as_friction = 8, as_useNativeDriver = Some True\<rparr>"

definition AnimationPresets_springGentle :: AnimationSpringConfig where
  "AnimationPresets_springGentle = \<lparr>as_tension = 50, as_friction = 7, as_useNativeDriver = Some True\<rparr>"

text \<open>
  The third parameter has a default value: an omitted (or \<^verbatim>\<open>undefined\<close>) preset is \<open>None\<close>.
  \<^verbatim>\<open>??\<close> replaces \<^verbatim>\<open>undefined\<close> (and \<^verbatim>\<open>null\<close>) only.
\<close>

definition createTimingAnimation :: "'v \<Rightarrow> real \<Rightarrow> AnimationTimingConfig option \<Rightarrow> 'v animation" where
  "createTimingAnimation val to preset_arg =
     (let preset = the_default AnimationPresets_normal preset_arg in
      Timing val
        \<lparr>toValue = to,
         useNativeDriver = the_default True (at_useNativeDriver preset),
         duration = at_duration preset,
         easing = at_easing preset\<rparr>)"

definition createSpringAnimation :: "'v \<Rightarrow> real \<Rightarrow> AnimationSpringConfig option \<Rightarrow> 'v animation" where
  "createSpringAnimation val to preset_arg =
     (let preset = the_default AnimationPresets_spring preset_arg in
      Spring val
        \<lparr>toValue = to,
         useNativeDriver = the_default True (as_useNativeDriver preset),
         tension = as_tension preset,
         friction = as_friction preset\<rparr>)"

section \<open>Readiness gate: \<^verbatim>\<open>src/presentation/hooks/useReanimatedReady.ts\<close>\<close>

text \<open>
  The hook holds one state cell (\<^verbatim>\<open>useState(false)\<close>) and one effect with an empty
  dependency array, so the effect runs once per mount and its cleanup once, at unmount.
  The effect arms a timer whose callback is a chain of nested
  \<^verbatim>\<open>requestAnimationFrame\<close> calls ending in \<^verbatim>\<open>setIsReady(true)\<close>; the cleanup is
  \<^verbatim>\<open>clearTimeout(timer)\<close> and nothing else.

  A callback body is what the source writes: either the call of the setter, or a request
  for an animation frame with the next callback.
\<close>

datatype callback =
    SetIsReadyTrue
  | RequestAnimationFrame callback

text \<open>
  The component and its host: the state cell, whether the component is mounted, the
  clock in milliseconds, the pending timer (due time and callback; \<open>None\<close> once fired or
  cleared), the callbacks waiting for the next animation frame, and three counters kept
  for the statements only: animation frames since the timer callback ran, calls of the
  setter, and calls of the setter made after the unmount.
\<close>

record ready_component =
  isReady :: bool
  mounted :: bool
  clock :: nat
  timer :: "(nat \<times> callback) option"
  frame_queue :: "callback list"
  frames_since_timer :: nat
  setIsReady_calls :: nat
  setIsReady_after_unmount :: nat

text \<open>
  \<^verbatim>\<open>setIsReady(true)\<close>: the host framework drops a state update of an unmounted component;
  the call is counted all the same.
\<close>

definition setIsReady_true :: "ready_component \<Rightarrow> ready_component" where
  "setIsReady_true s =
     (if mounted s
      then s\<lparr>isReady := True, setIsReady_calls := Suc (setIsReady_calls s)\<rparr>
      else s\<lparr>setIsReady_calls := Suc (setIsReady_calls s),
             setIsReady_after_unmount := Suc (setIsReady_after_unmount s)\<rparr>)"

fun run_callback :: "ready_component \<Rightarrow> callback \<Rightarrow> ready_component" where
  "run_callback s SetIsReadyTrue = setIsReady_true s"
| "run_callback s (RequestAnimationFrame cb) = s\<lparr>frame_queue := frame_queue s @ [cb]\<rparr>"

text \<open>
  What can happen to a mounted gate: time passes; the host runs the timer callback (only
  when the timer is pending and due); the host runs an animation frame (the callbacks
  queued before the frame run, those they request wait for the next frame); the component
  unmounts (the cleanup clears the timer). An event that cannot happen leaves the state
  as it is.
\<close>

datatype ready_event = Elapse nat | TimerFire | AnimationFrame | Unmount

fun ready_step :: "ready_component \<Rightarrow> ready_event \<Rightarrow> ready_component" where
  "ready_step s (Elapse ms) = s\<lparr>clock := clock s + ms\<rparr>"
| "ready_step s TimerFire =
     (case timer s of
        None \<Rightarrow> s
      | Some (due, cb) \<Rightarrow>
          if due \<le> clock s
          then run_callback (s\<lparr>timer := None, frames_since_timer := 0\<rparr>) cb
          else s)"
| "ready_step s AnimationFrame =
     foldl run_callback
       (s\<lparr>frame_queue := [], frames_since_timer := Suc (frames_since_timer s)\<rparr>)
       (frame_queue s)"
| "ready_step s Unmount = (if mounted s then s\<lparr>mounted := False, timer := None\<rparr> else s)"

definition ready_run :: "ready_component \<Rightarrow> ready_event list \<Rightarrow> ready_component" where
  "ready_run s es = foldl ready_step s es"

text \<open>The mount: \<^verbatim>\<open>useState(false)\<close> and \<^verbatim>\<open>setTimeout(cb, delay)\<close>.\<close>

definition ready_mount :: "nat \<Rightarrow> callback \<Rightarrow> ready_component" where
  "ready_mount delay cb =
     \<lparr>isReady = False, mounted = True, clock = 0, timer = Some (delay, cb), frame_queue = [],
      frames_since_timer = 0, setIsReady_calls = 0, setIsReady_after_unmount = 0\<rparr>"

text \<open>
  The three copies of the hook in the sources: 500 ms and three frames (the first text of
  \<^verbatim>\<open>useReanimatedReady.ts\<close>), 800 ms and four frames, 1000 ms and five frames.
\<close>

definition useReanimatedReady :: ready_component where
  "useReanimatedReady = ready_mount 500
     (RequestAnimationFrame (RequestAnimationFrame (RequestAnimationFrame SetIsReadyTrue)))"

definition useReanimatedReady_800 :: ready_component where
  "useReanimatedReady_800 = ready_mount 800
     (RequestAnimationFrame (RequestAnimationFrame (RequestAnimationFrame
       (RequestAnimationFrame SetIsReadyTrue))))"

definition useReanimatedReady_1000 :: ready_component where
  "useReanimatedReady_1000 = ready_mount 1000
     (RequestAnimationFrame (RequestAnimationFrame (RequestAnimationFrame
       (RequestAnimationFrame (RequestAnimationFrame SetIsReadyTrue)))))"

text \<open>The number of animation frames a callback needs before the setter is called.\<close>

fun frames_needed :: "callback \<Rightarrow> nat" where
  "frames_needed SetIsReadyTrue = 0"
| "frames_needed (RequestAnimationFrame cb) = Suc (frames_needed cb)"

text \<open>
  What holds of a gate mounted with \<open>delay\<close> and \<open>cb0\<close> in every state it can reach: while the
  timer is pending nothing has happened yet; at most one callback waits for a frame, and
  then the setter has not been called; the setter is called at most once; and the flag
  is true only after the delay and the frames.
\<close>

definition ready_inv :: "nat \<Rightarrow> callback \<Rightarrow> ready_component \<Rightarrow> bool" where
  "ready_inv delay cb0 s =
     ((case timer s of
         None \<Rightarrow> True
       | Some (due, cb) \<Rightarrow>
           due = delay \<and> cb = cb0 \<and> mounted s \<and> frame_queue s = [] \<and>
           setIsReady_calls s = 0 \<and> \<not> isReady s) \<and>
      (case frame_queue s of
         [] \<Rightarrow> True
       | cb # rest \<Rightarrow>
           rest = [] \<and> setIsReady_calls s = 0 \<and> \<not> isReady s \<and> delay \<le> clock s \<and>
           frames_needed cb0 = frames_since_timer s + Suc (frames_needed cb)) \<and>
      setIsReady_calls s \<le> 1 \<and>
      (if isReady s then delay \<le> clock s \<and> frames_needed cb0 \<le> frames_since_timer s else True))"

section \<open>The worklet variant: \<^verbatim>\<open>useAnimation\<close> and \<^verbatim>\<open>domain/entities/Animation.ts\<close>\<close>

datatype AnimationPreset =
    FADE_IN | FADE_OUT | SLIDE_IN_UP | SLIDE_IN_DOWN | SLIDE_IN_LEFT | SLIDE_IN_RIGHT
  | SCALE_IN | SCALE_OUT | BOUNCE | SHAKE

definition DURATION_INSTANT :: real where "DURATION_INSTANT = 0"
definition DURATION_FAST :: real where "DURATION_FAST = 200"
definition DURATION_NORMAL :: real where "DURATION_NORMAL = 300"
definition DURATION_SLOW :: real where "DURATION_SLOW = 500"
definition DURATION_VERY_SLOW :: real where "DURATION_VERY_SLOW = 1000"

text \<open>
  \<^verbatim>\<open>AnimationTimingConfig\<close> of the worklet engine: every field is optional. The transition
  functions read its \<^verbatim>\<open>duration\<close> only.
\<close>

record WorkletTimingConfig =
  wt_duration :: "real option"
  wt_easing :: "easing option"

fun getTimingConfig :: "AnimationPreset \<Rightarrow> WorkletTimingConfig" where
  "getTimingConfig FADE_IN = \<lparr>wt_duration = Some DURATION_NORMAL, wt_easing = None\<rparr>"
| "getTimingConfig FADE_OUT = \<lparr>wt_duration = Some DURATION_NORMAL, wt_easing = None\<rparr>"
| "getTimingConfig SLIDE_IN_UP = \<lparr>wt_duration = Some DURATION_NORMAL, wt_easing = None\<rparr>"
| "getTimingConfig SLIDE_IN_DOWN = \<lparr>wt_duration = Some DURATION_NORMAL, wt_easing = None\<rparr>"
| "getTimingConfig SLIDE_IN_LEFT = \<lparr>wt_duration = Some DURATION_NORMAL, wt_easing = None\<rparr>"
| "getTimingConfig SLIDE_IN_RIGHT = \<lparr>wt_duration = Some DURATION_NORMAL, wt_easing = None\<rparr>"
| "getTimingConfig SCALE_IN = \<lparr>wt_duration = Some DURATION_FAST, wt_easing = None\<rparr>"
| "getTimingConfig SCALE_OUT = \<lparr>wt_duration = Some DURATION_FAST, wt_easing = None\<rparr>"
| "getTimingConfig BOUNCE = \<lparr>wt_duration = Some DURATION_SLOW, wt_easing = None\<rparr>"
| "getTimingConfig SHAKE = \<lparr>wt_duration = Some DURATION_FAST, wt_easing = None\<rparr>"

text \<open>
  \<^verbatim>\<open>a || b\<close> on an optional number: \<^verbatim>\<open>undefined\<close> and \<^verbatim>\<open>0\<close> are falsy (so is \<^verbatim>\<open>NaN\<close>, which the
  reals do not have). On an optional object, only \<^verbatim>\<open>undefined\<close> is falsy.
\<close>

definition number_or :: "real option \<Rightarrow> real \<Rightarrow> real" where
  "number_or a b = (case a of None \<Rightarrow> b | Some x \<Rightarrow> if x = 0 then b else x)"

definition object_or :: "'a option \<Rightarrow> 'a \<Rightarrow> 'a" where
  "object_or a b = (case a of None \<Rightarrow> b | Some x \<Rightarrow> x)"

text \<open>
  The shared values of the hook and what is assigned to their \<^verbatim>\<open>.value\<close>: a number, or a
  \<^verbatim>\<open>withTiming(toValue, {duration, easing})\<close> transition. A transition function is the list
  of its assignments, in order.
\<close>

datatype shared_value = opacity | translateY | translateX | scale | rotate

datatype assigned = Number real | WithTiming real real easing

definition fadeIn :: "WorkletTimingConfig option \<Rightarrow> (shared_value \<times> assigned) list" where
  "fadeIn config =
     (let timing = object_or config (getTimingConfig FADE_IN) in
      [(opacity, WithTiming 1 (number_or (wt_duration timing) DURATION_NORMAL) Easing_ease)])"

definition fadeOut :: "WorkletTimingConfig option \<Rightarrow> (shared_value \<times> assigned) list" where
  "fadeOut config =
     (let timing = object_or config (getTimingConfig FADE_OUT) in
      [(opacity, WithTiming 0 (number_or (wt_duration timing) DURATION_NORMAL) Easing_ease)])"

definition slideInUp :: "real option \<Rightarrow> WorkletTimingConfig option \<Rightarrow> (shared_value \<times> assigned) list" where
  "slideInUp distance_arg config =
     (let distance = the_default 100 distance_arg;
          timing = object_or config (getTimingConfig SLIDE_IN_UP) in
      [(translateY, Number distance),
       (translateY, WithTiming 0 (number_or (wt_duration timing) DURATION_NORMAL) (Easing_out Easing_cubic))])"

definition slideInDown :: "real option \<Rightarrow> WorkletTimingConfig option \<Rightarrow> (shared_value \<times> assigned) list" where
  "slideInDown distance_arg config =
     (let distance = the_default 100 distance_arg;
          timing = object_or config (getTimingConfig SLIDE_IN_DOWN) in
      [(translateY, Number (- distance)),
       (translateY, WithTiming 0 (number_or (wt_duration timing) DURATION_NORMAL) (Easing_out Easing_cubic))])"

definition slideInLeft :: "real option \<Rightarrow> WorkletTimingConfig option \<Rightarrow> (shared_value \<times> assigned) list" where
  "slideInLeft distance_arg config =
     (let distance = the_default 100 distance_arg;
          timing = object_or config (getTimingConfig SLIDE_IN_LEFT) in
      [(translateX, Number (- distance)),
       (translateX, WithTiming 0 (number_or (wt_duration timing) DURATION_NORMAL) (Easing_out Easing_cubic))])"

definition slideInRight :: "real option \<Rightarrow> WorkletTimingConfig option \<Rightarrow> (shared_value \<times> assigned) list" where
  "slideInRight distance_arg config =
     (let distance = the_default 100 distance_arg;
          timing = object_or config (getTimingConfig SLIDE_IN_RIGHT) in
      [(translateX, Number distance),
       (translateX, WithTiming 0 (number_or (wt_duration timing) DURATION_NORMAL) (Easing_out Easing_cubic))])"

text \<open>The durations of the transitions in a list of assignments.\<close>

fun timing_durations :: "(shared_value \<times> assigned) list \<Rightarrow> real list" where
  "timing_durations [] = []"
| "timing_durations ((v, WithTiming to d e) # xs) = d # timing_durations xs"
| "timing_durations ((v, Number x) # xs) = timing_durations xs"

section \<open>Properties of the effect machinery\<close>

lemma perform_last_deps: "last_deps (perform c k) = last_deps c"
  by (cases k) simp_all

lemma foldl_perform_last_deps: "last_deps (foldl perform c body) = last_deps c"
  by (induction body arbitrary: c) (simp_all add: perform_last_deps)

lemma perform_cong:
  "cells c1 = cells c2 \<Longrightarrow> engine_log c1 = engine_log c2 \<Longrightarrow>
   cells (perform c1 k) = cells (perform c2 k) \<and> engine_log (perform c1 k) = engine_log (perform c2 k)"
  by (cases k) simp_all

lemma foldl_perform_cong:
  "cells c1 = cells c2 \<Longrightarrow> engine_log c1 = engine_log c2 \<Longrightarrow>
   cells (foldl perform c1 body) = cells (foldl perform c2 body) \<and>
   engine_log (foldl perform c1 body) = engine_log (foldl perform c2 body)"
proof (induction body arbitrary: c1 c2)
  case Nil
  then show ?case by simp
next
  case (Cons k body)
  from perform_cong [OF Cons.prems, of k] show ?case
    by (simp add: Cons.IH)
qed

lemma perform_log: "engine_log (perform c k) = engine_log c @ [k]"
  by (cases k) simp_all

lemma foldl_perform_log: "engine_log (foldl perform c body) = engine_log c @ body"
  by (induction body arbitrary: c) (simp_all add: perform_log)

lemma all_less_4: "(\<forall>k<4. P k) \<longleftrightarrow> P 0 \<and> P (Suc 0) \<and> P 2 \<and> P (3::nat)"
proof -
  have "(k::nat) < 4 \<longleftrightarrow> k = 0 \<or> k = 1 \<or> k = 2 \<or> k = 3" for k by auto
  then show ?thesis by auto
qed

section \<open>Staggered entrance: the enabled path\<close>

text \<open>
  Under the engine's contract, a node of the \<open>k\<close>-th group of the entrance sequence has
  been issued exactly when every earlier group has settled.
\<close>

lemma entrance_order:
  "\<forall>k<4. \<forall>a \<in> set (nodes (entrance_groups d ! k)).
      a \<in> set (issued D (entrance_sequence d)) \<longleftrightarrow> (\<forall>j<k. settled D (entrance_groups d ! j))"
  unfolding all_less_4
  by (simp add: entrance_sequence_def entrance_groups_def icon_group_def text_group_def
      All_less_Suc numeral_2_eq_2 numeral_3_eq_3 conj_commute conj_left_commute)

lemma entrance_mount_enabled_log:
  "se_enabled_of options \<Longrightarrow>
   engine_log (useStaggeredEntrance_mount options) = [Start (entrance_sequence (se_duration_of options))]"
  by (simp add: useStaggeredEntrance_mount_def useStaggeredEntrance_def useEffect_def
      useStaggeredEntrance_effect_def)

text \<open>
  Claim C1. When the staggered entrance hook is mounted with \<^verbatim>\<open>enabled\<close> true (given, or by
  default), the mount effect gives the engine exactly one command: the start of a
  sequence of four parallel groups, in this order: the icon scale spring (tension 50,
  friction 7, to 1) with the icon opacity timing (\<^verbatim>\<open>duration * 0.8\<close>, to 1); then, for title,
  description and features, the opacity timing (\<^verbatim>\<open>duration\<close>, to 1) with the translateY
  spring (tension 50, friction 8, to 0). Here \<^verbatim>\<open>duration\<close> is the configured one: the value
  of the option when it is given, 600 when it is left out. Under the engine's contract
  for sequences and parallel groups, whatever set \<open>D\<close> of nodes has settled, the nodes of a
  group have been issued exactly when all earlier groups have settled: a later group
  starts only after the previous group's parallel set has settled, and the two nodes of
  a group start together.
\<close>

theorem entrance_enabled_sequence:
  assumes "se_enabled options \<noteq> Some False"
    and "dur = (case se_duration options of None \<Rightarrow> 600 | Some d \<Rightarrow> d)"
  shows "engine_log (useStaggeredEntrance_mount options) =
      [Start (Sequence
        [Parallel
          [Spring iconScale \<lparr>toValue = 1, useNativeDriver = True, tension = 50, friction = 7\<rparr>,
           Timing iconOpacity \<lparr>toValue = 1, useNativeDriver = True,
             duration = dur * 0.8, easing = None\<rparr>],
         Parallel
          [Timing titleOpacity \<lparr>toValue = 1, useNativeDriver = True,
             duration = dur, easing = None\<rparr>,
           Spring titleTranslateY \<lparr>toValue = 0, useNativeDriver = True, tension = 50, friction = 8\<rparr>],
         Parallel
          [Timing descriptionOpacity \<lparr>toValue = 1, useNativeDriver = True,
             duration = dur, easing = None\<rparr>,
           Spring descriptionTranslateY \<lparr>toValue = 0, useNativeDriver = True, tension = 50, friction = 8\<rparr>],
         Parallel
          [Timing featuresOpacity \<lparr>toValue = 1, useNativeDriver = True,
             duration = dur, easing = None\<rparr>,
           Spring featuresTranslateY \<lparr>toValue = 0, useNativeDriver = True, tension = 50, friction = 8\<rparr>]])]
    \<and> started (useStaggeredEntrance_mount options) = [entrance_sequence dur]
    \<and> (\<forall>k<4. \<forall>a \<in> set (nodes (entrance_groups dur ! k)).
          a \<in> set (issued D (entrance_sequence dur))
            \<longleftrightarrow> (\<forall>j<k. settled D (entrance_groups dur ! j)))"
proof -
  from assms(1) have en: "se_enabled_of options"
    by (cases "se_enabled options") (simp_all add: se_enabled_of_def the_default_def)
  from assms(2) have du: "se_duration_of options = dur"
    by (simp add: se_duration_of_def the_default_def)
  note log = entrance_mount_enabled_log [OF en, unfolded du]
  have "started (useStaggeredEntrance_mount options) = [entrance_sequence dur]"
    by (simp add: started_def log)
  moreover have "engine_log (useStaggeredEntrance_mount options) =
      [Start (Sequence
        [Parallel
          [Spring iconScale \<lparr>toValue = 1, useNativeDriver = True, tension = 50, friction = 7\<rparr>,
           Timing iconOpacity \<lparr>toValue = 1, useNativeDriver = True,
             duration = dur * 0.8, easing = None\<rparr>],
         Parallel
          [Timing titleOpacity \<lparr>toValue = 1, useNativeDriver = True,
             duration = dur, easing = None\<rparr>,
           Spring titleTranslateY \<lparr>toValue = 0, useNativeDriver = True, tension = 50, friction = 8\<rparr>],
         Parallel
          [Timing descriptionOpacity \<lparr>toValue = 1, useNativeDriver = True,
             duration = dur, easing = None\<rparr>,
           Spring descriptionTranslateY \<lparr>toValue = 0, useNativeDriver = True, tension = 50, friction = 8\<rparr>],
         Parallel
          [Timing featuresOpacity \<lparr>toValue = 1, useNativeDriver = True,
             duration = dur, easing = None\<rparr>,
           Spring featuresTranslateY \<lparr>toValue = 0, useNativeDriver = True, tension = 50, friction = 8\<rparr>]])]"
    by (simp add: log entrance_sequence_def entrance_groups_def icon_group_def text_group_def)
  ultimately show ?thesis using entrance_order by blast
qed

text \<open>
  Mounted with \<^verbatim>\<open>duration\<close> 1000 and \<^verbatim>\<open>enabled\<close> true: one sequence is started, the icon
  opacity over 800 ms and the three text opacities over 1000 ms; once both icon nodes
  have settled the title timing has been issued, and with the icon spring settled alone
  it has not. Mounted with all options left out, the durations are 480 and 600.
\<close>

theorem entrance_enabled_sequence_witness:
  "engine_log (useStaggeredEntrance_mount
      \<lparr>se_delay = None, se_duration = Some 1000, se_translateYOffset = None, se_enabled = Some True\<rparr>) =
      [Start (Sequence
        [Parallel
          [Spring iconScale \<lparr>toValue = 1, useNativeDriver = True, tension = 50, friction = 7\<rparr>,
           Timing iconOpacity \<lparr>toValue = 1, useNativeDriver = True, duration = 800, easing = None\<rparr>],
         Parallel
          [Timing titleOpacity \<lparr>toValue = 1, useNativeDriver = True, duration = 1000, easing = None\<rparr>,
           Spring titleTranslateY \<lparr>toValue = 0, useNativeDriver = True, tension = 50, friction = 8\<rparr>],
         Parallel
          [Timing descriptionOpacity \<lparr>toValue = 1, useNativeDriver = True, duration = 1000, easing = None\<rparr>,
           Spring descriptionTranslateY \<lparr>toValue = 0, useNativeDriver = True, tension = 50, friction = 8\<rparr>],
         Parallel
          [Timing featuresOpacity \<lparr>toValue = 1, useNativeDriver = True, duration = 1000, easing = None\<rparr>,
           Spring featuresTranslateY \<lparr>toValue = 0, useNativeDriver = True, tension = 50, friction = 8\<rparr>]])]
   \<and> Timing titleOpacity \<lparr>toValue = 1, useNativeDriver = True, duration = 1000, easing = None\<rparr>
       \<in> set (issued
           {Spring iconScale \<lparr>toValue = 1, useNativeDriver = True, tension = 50, friction = 7\<rparr>,
            Timing iconOpacity \<lparr>toValue = 1, useNativeDriver = True, duration = 800, easing = None\<rparr>}
           (entrance_sequence 1000))
   \<and> Timing titleOpacity \<lparr>toValue = 1, useNativeDriver = True, duration = 1000, easing = None\<rparr>
       \<notin> set (issued
           {Spring iconScale \<lparr>toValue = 1, useNativeDriver = True, tension = 50, friction = 7\<rparr>}
           (entrance_sequence 1000))
   \<and> started (useStaggeredEntrance_mount
        \<lparr>se_delay = None, se_duration = None, se_translateYOffset = None, se_enabled = None\<rparr>)
       = [Sequence
        [Parallel
          [Spring iconScale \<lparr>toValue = 1, useNativeDriver = True, tension = 50, friction = 7\<rparr>,
           Timing iconOpacity \<lparr>toValue = 1, useNativeDriver = True, duration = 480, easing = None\<rparr>],
         Parallel
          [Timing titleOpacity \<lparr>toValue = 1, useNativeDriver = True, duration = 600, easing = None\<rparr>,
           Spring titleTranslateY \<lparr>toValue = 0, useNativeDriver = True, tension = 50, friction = 8\<rparr>],
         Parallel
          [Timing descriptionOpacity \<lparr>toValue = 1, useNativeDriver = True, duration = 600, easing = None\<rparr>,
           Spring descriptionTranslateY \<lparr>toValue = 0, useNativeDriver = True, tension = 50, friction = 8\<rparr>],
         Parallel
          [Timing featuresOpacity \<lparr>toValue = 1, useNativeDriver = True, duration = 600, easing = None\<rparr>,
           Spring featuresTranslateY \<lparr>toValue = 0, useNativeDriver = True, tension = 50, friction = 8\<rparr>]]]"
proof -
  let ?o = "\<lparr>se_delay = None, se_duration = Some 1000, se_translateYOffset = None,
             se_enabled = Some True\<rparr>"
  let ?o' = "\<lparr>se_delay = None, se_duration = None, se_translateYOffset = None, se_enabled = None\<rparr>"
  let ?t = "Timing titleOpacity \<lparr>toValue = 1, useNativeDriver = True, duration = 1000, easing = None\<rparr>"
  have en: "se_enabled ?o \<noteq> Some False"
    and du: "(1000::real) = (case se_duration ?o of None \<Rightarrow> 600 | Some d \<Rightarrow> d)"
    and en': "se_enabled ?o' \<noteq> Some False"
    and du': "(600::real) = (case se_duration ?o' of None \<Rightarrow> 600 | Some d \<Rightarrow> d)"
    by simp_all
  note t = entrance_enabled_sequence [OF en du]
  note t' = entrance_enabled_sequence [OF en' du']
  from t have l: "engine_log (useStaggeredEntrance_mount ?o) =
      [Start (Sequence
        [Parallel
          [Spring iconScale \<lparr>toValue = 1, useNativeDriver = True, tension = 50, friction = 7\<rparr>,
           Timing iconOpacity \<lparr>toValue = 1, useNativeDriver = True, duration = 1000 * 0.8, easing = None\<rparr>],
         Parallel
          [Timing titleOpacity \<lparr>toValue = 1, useNativeDriver = True, duration = 1000, easing = None\<rparr>,
           Spring titleTranslateY \<lparr>toValue = 0, useNativeDriver = True, tension = 50, friction = 8\<rparr>],
         Parallel
          [Timing descriptionOpacity \<lparr>toValue = 1, useNativeDriver = True, duration = 1000, easing = None\<rparr>,
           Spring descriptionTranslateY \<lparr>toValue = 0, useNativeDriver = True, tension = 50, friction = 8\<rparr>],
         Parallel
          [Timing featuresOpacity \<lparr>toValue = 1, useNativeDriver = True, duration = 1000, easing = None\<rparr>,
           Spring featuresTranslateY \<lparr>toValue = 0, useNativeDriver = True, tension = 50, friction = 8\<rparr>]])]"
    by blast
  from t' have s: "started (useStaggeredEntrance_mount ?o') = [entrance_sequence 600]"
    by blast
  have r: "?t \<in> set (issued D (entrance_sequence 1000)) \<longleftrightarrow> settled D (icon_group 1000)" for D
    using t [THEN conjunct2, THEN conjunct2, rule_format, of "Suc 0" ?t D]
    by (simp add: entrance_groups_def text_group_def)
  have i: "icon_group 1000 = Parallel
          [Spring iconScale \<lparr>toValue = 1, useNativeDriver = True, tension = 50, friction = 7\<rparr>,
           Timing iconOpacity \<lparr>toValue = 1, useNativeDriver = True, duration = 800, easing = None\<rparr>]"
    by (simp add: icon_group_def)
  show ?thesis
    unfolding l s r i
    by (simp add: entrance_sequence_def entrance_groups_def icon_group_def text_group_def)
qed

section \<open>Staggered entrance: the disabled path\<close>

text \<open>
  Claim C4. When the staggered entrance hook is mounted with \<^verbatim>\<open>enabled\<close> false, the mount
  effect writes the terminal value into each of the eight cells with \<^verbatim>\<open>setValue\<close> and
  starts no animation: after the mount, iconScale, iconOpacity, titleOpacity,
  titleTranslateY, descriptionOpacity, descriptionTranslateY, featuresOpacity and
  featuresTranslateY read 1, 1, 1, 0, 1, 0, 1, 0, and the engine has been given the eight
  writes and nothing else.
\<close>

theorem entrance_disabled_jumps:
  assumes "se_enabled options = Some False"
  shows "map (cells (useStaggeredEntrance_mount options))
           [iconScale, iconOpacity, titleOpacity, titleTranslateY,
            descriptionOpacity, descriptionTranslateY, featuresOpacity, featuresTranslateY]
         = [1, 1, 1, 0, 1, 0, 1, 0]
    \<and> started (useStaggeredEntrance_mount options) = []
    \<and> engine_log (useStaggeredEntrance_mount options) =
        [SetValue iconScale 1, SetValue iconOpacity 1,
         SetValue titleOpacity 1, SetValue titleTranslateY 0,
         SetValue descriptionOpacity 1, SetValue descriptionTranslateY 0,
         SetValue featuresOpacity 1, SetValue featuresTranslateY 0]"
  using assms
  by (simp add: useStaggeredEntrance_mount_def useStaggeredEntrance_def useEffect_def
      useStaggeredEntrance_effect_def started_def se_enabled_of_def the_default_def)

theorem entrance_disabled_jumps_witness:
  "se_enabled \<lparr>se_delay = None, se_duration = None, se_translateYOffset = None,
               se_enabled = Some False\<rparr> = Some False
   \<and> map (cells (useStaggeredEntrance_mount
        \<lparr>se_delay = None, se_duration = None, se_translateYOffset = None, se_enabled = Some False\<rparr>))
       [iconScale, iconOpacity, titleOpacity, titleTranslateY,
        descriptionOpacity, descriptionTranslateY, featuresOpacity, featuresTranslateY]
      = [1, 1, 1, 0, 1, 0, 1, 0]
   \<and> started (useStaggeredEntrance_mount
        \<lparr>se_delay = None, se_duration = None, se_translateYOffset = None, se_enabled = Some False\<rparr>)
      = []"
  using entrance_disabled_jumps
    [of "\<lparr>se_delay = None, se_duration = None, se_translateYOffset = None, se_enabled = Some False\<rparr>"]
  by simp

section \<open>Staggered entrance: the \<^verbatim>\<open>delay\<close> option\<close>

lemma effect_delay:
  "useStaggeredEntrance_effect (options\<lparr>se_delay := d\<rparr>) = useStaggeredEntrance_effect options"
  by (simp add: useStaggeredEntrance_effect_def se_enabled_of_def se_duration_of_def)

lemma refs_delay:
  "useStaggeredEntrance_refs (options\<lparr>se_delay := d\<rparr>) = useStaggeredEntrance_refs options"
proof
  fix v
  show "useStaggeredEntrance_refs (options\<lparr>se_delay := d\<rparr>) v = useStaggeredEntrance_refs options v"
    by (cases v) (simp_all add: se_translateYOffset_of_def)
qed

lemma render_same_but_delay:
  assumes "same_but_delay (the_default 100 d1) (the_default 100 d2) c1 c2"
  shows "same_but_delay (the_default 100 d1) (the_default 100 d2)
           (useStaggeredEntrance (options\<lparr>se_delay := d1\<rparr>) c1)
           (useStaggeredEntrance (options\<lparr>se_delay := d2\<rparr>) c2)"
proof -
  let ?k1 = "useStaggeredEntrance_deps (options\<lparr>se_delay := d1\<rparr>)"
  let ?k2 = "useStaggeredEntrance_deps (options\<lparr>se_delay := d2\<rparr>)"
  have k1: "?k1 = (se_enabled_of options, the_default 100 d1,
                   se_duration_of options, se_translateYOffset_of options)"
    and k2: "?k2 = (se_enabled_of options, the_default 100 d2,
                    se_duration_of options, se_translateYOffset_of options)"
    by (simp_all add: useStaggeredEntrance_deps_def se_enabled_of_def se_delay_of_def
        se_duration_of_def se_translateYOffset_of_def)
  have same: "last_deps c1 = Some ?k1 \<longleftrightarrow> last_deps c2 = Some ?k2"
    using assms unfolding k1 k2 same_but_delay_def
    by (auto split: option.splits prod.splits)
  show ?thesis
  proof (cases "last_deps c1 = Some ?k1")
    case True
    with same assms show ?thesis
      by (simp add: useStaggeredEntrance_def useEffect_def)
  next
    case False
    with same have F2: "last_deps c2 \<noteq> Some ?k2" by simp
    have cl: "cells (c1\<lparr>last_deps := Some ?k1\<rparr>) = cells (c2\<lparr>last_deps := Some ?k2\<rparr>)"
      "engine_log (c1\<lparr>last_deps := Some ?k1\<rparr>) = engine_log (c2\<lparr>last_deps := Some ?k2\<rparr>)"
      using assms by (simp_all add: same_but_delay_def)
    from foldl_perform_cong [OF cl, of "useStaggeredEntrance_effect options"] False F2
    show ?thesis
      unfolding same_but_delay_def useStaggeredEntrance_def useEffect_def effect_delay
      by (simp add: foldl_perform_last_deps k1 k2)
  qed
qed

lemma fold_same_but_delay:
  "same_but_delay (the_default 100 d1) (the_default 100 d2) c1 c2 \<Longrightarrow>
   same_but_delay (the_default 100 d1) (the_default 100 d2)
     (fold useStaggeredEntrance (map (\<lambda>r. r\<lparr>se_delay := d1\<rparr>) rest) c1)
     (fold useStaggeredEntrance (map (\<lambda>r. r\<lparr>se_delay := d2\<rparr>) rest) c2)"
proof (induction rest arbitrary: c1 c2)
  case Nil
  then show ?case by simp
next
  case (Cons r rest)
  from Cons.IH [OF render_same_but_delay [OF Cons.prems, of r]] show ?case by simp
qed

lemma mount_same_but_delay:
  "same_but_delay (the_default 100 d1) (the_default 100 d2)
     (useStaggeredEntrance_mount (options\<lparr>se_delay := d1\<rparr>))
     (useStaggeredEntrance_mount (options\<lparr>se_delay := d2\<rparr>))"
  unfolding useStaggeredEntrance_mount_def
  by (rule render_same_but_delay) (simp add: same_but_delay_def refs_delay)

lemma entrance_render_log:
  "engine_log (useStaggeredEntrance options c) =
     (if last_deps c = Some (useStaggeredEntrance_deps options) then engine_log c
      else engine_log c @ useStaggeredEntrance_effect options)"
  by (simp add: useStaggeredEntrance_def useEffect_def foldl_perform_log)

text \<open>
  Claim C6, as stated, fails within one mount: \<^verbatim>\<open>delay\<close> stands in the dependency array of
  the effect. Take the options left out but for \<^verbatim>\<open>delay\<close>. A component mounted with delay
  100 and rendered again with delay 5000 is given the entrance sequence a second time at
  that render; rendered again with delay 100 it is given nothing more. The two runs
  differ in the delay value only, and the engine sees different commands.
\<close>

theorem entrance_delay_change_counterexample:
  "started (useStaggeredEntrance_renders
      \<lparr>se_delay = Some 100, se_duration = None, se_translateYOffset = None, se_enabled = None\<rparr>
      [\<lparr>se_delay = Some 5000, se_duration = None, se_translateYOffset = None, se_enabled = None\<rparr>])
     = [entrance_sequence 600, entrance_sequence 600]
   \<and> started (useStaggeredEntrance_renders
      \<lparr>se_delay = Some 100, se_duration = None, se_translateYOffset = None, se_enabled = None\<rparr>
      [\<lparr>se_delay = Some 100, se_duration = None, se_translateYOffset = None, se_enabled = None\<rparr>])
     = [entrance_sequence 600]
   \<and> engine_log (useStaggeredEntrance_renders
      \<lparr>se_delay = Some 100, se_duration = None, se_translateYOffset = None, se_enabled = None\<rparr>
      [\<lparr>se_delay = Some 5000, se_duration = None, se_translateYOffset = None, se_enabled = None\<rparr>])
     \<noteq> engine_log (useStaggeredEntrance_renders
      \<lparr>se_delay = Some 100, se_duration = None, se_translateYOffset = None, se_enabled = None\<rparr>
      [\<lparr>se_delay = Some 100, se_duration = None, se_translateYOffset = None, se_enabled = None\<rparr>])"
  by (simp add: useStaggeredEntrance_renders_def useStaggeredEntrance_mount_def
      useStaggeredEntrance_def useEffect_def useStaggeredEntrance_effect_def
      useStaggeredEntrance_deps_def started_def se_enabled_of_def se_delay_of_def
      se_duration_of_def se_translateYOffset_of_def the_default_def)

text \<open>
  Claim C6, amended. The effect body of the staggered entrance hook never reads
  \<^verbatim>\<open>delay\<close>: it is the same for any two delay values, so the delay neither gates nor
  postpones the start of the sequence. For any two values \<open>d1\<close> and \<open>d2\<close> of the option
  (given or left out), each held through a whole run, and any mount followed by any
  renders whose other options are the same in both runs, the two components have been
  given the same commands and hold the same cell values after every render. Within one
  mount the delay has one effect: a render whose \<^verbatim>\<open>delay\<close> (the value given, 100 when left
  out) differs from the one of the last effect run re-runs the effect at that render.
\<close>

theorem entrance_delay_only_retriggers:
  "useStaggeredEntrance_effect (first\<lparr>se_delay := d1\<rparr>)
     = useStaggeredEntrance_effect (first\<lparr>se_delay := d2\<rparr>)
   \<and> engine_log (useStaggeredEntrance_renders (first\<lparr>se_delay := d1\<rparr>)
        (map (\<lambda>r. r\<lparr>se_delay := d1\<rparr>) rest))
     = engine_log (useStaggeredEntrance_renders (first\<lparr>se_delay := d2\<rparr>)
        (map (\<lambda>r. r\<lparr>se_delay := d2\<rparr>) rest))
   \<and> cells (useStaggeredEntrance_renders (first\<lparr>se_delay := d1\<rparr>)
        (map (\<lambda>r. r\<lparr>se_delay := d1\<rparr>) rest))
     = cells (useStaggeredEntrance_renders (first\<lparr>se_delay := d2\<rparr>)
        (map (\<lambda>r. r\<lparr>se_delay := d2\<rparr>) rest))
   \<and> (last_deps c = Some (last_enabled, last_delay, last_duration, last_offset) \<and>
        last_delay \<noteq> (case se_delay options of None \<Rightarrow> 100 | Some d \<Rightarrow> d) \<longrightarrow>
        engine_log (useStaggeredEntrance options c)
          = engine_log c @ useStaggeredEntrance_effect options)"
proof -
  have "last_deps c \<noteq> Some (useStaggeredEntrance_deps options)"
    if "last_deps c = Some (last_enabled, last_delay, last_duration, last_offset)"
      and "last_delay \<noteq> (case se_delay options of None \<Rightarrow> 100 | Some d \<Rightarrow> d)"
    using that by (auto simp: useStaggeredEntrance_deps_def se_delay_of_def the_default_def)
  then have "last_deps c = Some (last_enabled, last_delay, last_duration, last_offset) \<and>
        last_delay \<noteq> (case se_delay options of None \<Rightarrow> 100 | Some d \<Rightarrow> d) \<longrightarrow>
        engine_log (useStaggeredEntrance options c)
          = engine_log c @ useStaggeredEntrance_effect options"
    by (simp add: entrance_render_log)
  with fold_same_but_delay [OF mount_same_but_delay, of d1 d2 rest first]
  show ?thesis
    by (simp add: useStaggeredEntrance_renders_def same_but_delay_def effect_delay)
qed

text \<open>
  With the other options left out: a run held at delay 100 and a run held at delay 5000
  are both given the one sequence at the mount and nothing at the second render; and a
  component mounted with delay 100 and rendered with delay 5000 is given the sequence
  again.
\<close>

theorem entrance_delay_only_retriggers_witness:
  "engine_log (useStaggeredEntrance_renders
      \<lparr>se_delay = Some 100, se_duration = None, se_translateYOffset = None, se_enabled = None\<rparr>
      [\<lparr>se_delay = Some 100, se_duration = None, se_translateYOffset = None, se_enabled = None\<rparr>])
     = [Start (entrance_sequence 600)]
   \<and> engine_log (useStaggeredEntrance_renders
      \<lparr>se_delay = Some 5000, se_duration = None, se_translateYOffset = None, se_enabled = None\<rparr>
      [\<lparr>se_delay = Some 5000, se_duration = None, se_translateYOffset = None, se_enabled = None\<rparr>])
     = [Start (entrance_sequence 600)]
   \<and> engine_log (useStaggeredEntrance
      \<lparr>se_delay = Some 5000, se_duration = None, se_translateYOffset = None, se_enabled = None\<rparr>
      (useStaggeredEntrance_mount
        \<lparr>se_delay = Some 100, se_duration = None, se_translateYOffset = None, se_enabled = None\<rparr>))
     = [Start (entrance_sequence 600), Start (entrance_sequence 600)]"
proof -
  let ?a = "\<lparr>se_delay = Some 100, se_duration = None, se_translateYOffset = None, se_enabled = None\<rparr>"
  let ?b = "\<lparr>se_delay = Some 5000, se_duration = None, se_translateYOffset = None, se_enabled = None\<rparr>"
  have e: "useStaggeredEntrance_effect ?b = [Start (entrance_sequence 600)]"
    by (simp add: useStaggeredEntrance_effect_def se_enabled_of_def se_duration_of_def
        the_default_def)
  have m: "engine_log (useStaggeredEntrance_mount ?a) = [Start (entrance_sequence 600)]"
    and d: "last_deps (useStaggeredEntrance_mount ?a) = Some (True, 100, 600, 30)"
    by (simp_all add: useStaggeredEntrance_mount_def useStaggeredEntrance_def useEffect_def
        useStaggeredEntrance_effect_def useStaggeredEntrance_deps_def foldl_perform_last_deps
        se_enabled_of_def se_delay_of_def se_duration_of_def se_translateYOffset_of_def
        the_default_def)
  have a: "engine_log (useStaggeredEntrance_renders ?a [?a]) = [Start (entrance_sequence 600)]"
    by (simp add: useStaggeredEntrance_renders_def entrance_render_log m d
        useStaggeredEntrance_deps_def se_enabled_of_def se_delay_of_def se_duration_of_def
        se_translateYOffset_of_def the_default_def)
  note t = entrance_delay_only_retriggers
    [where first = ?a and ?d1.0 = "Some 100" and ?d2.0 = "Some 5000" and rest = "[?a]"
       and c = "useStaggeredEntrance_mount ?a" and options = ?b
       and last_enabled = True and last_delay = 100 and last_duration = 600 and last_offset = 30]
  from t a have b: "engine_log (useStaggeredEntrance_renders ?b [?b]) = [Start (entrance_sequence 600)]"
    by simp
  from t d have c: "engine_log (useStaggeredEntrance ?b (useStaggeredEntrance_mount ?a))
      = engine_log (useStaggeredEntrance_mount ?a) @ useStaggeredEntrance_effect ?b"
    by simp
  show ?thesis
    by (simp add: a b c m e)
qed

section \<open>Bottom sheet\<close>

lemma sheet_mount_log:
  "engine_log (useBottomSheetAnimation_mount H visible options) = useBottomSheetAnimation_effect H visible options"
  by (simp add: useBottomSheetAnimation_mount_def useBottomSheetAnimation_def useEffect_def
      useBottomSheetAnimation_effect_def)

lemma sheet_mount_cells:
  "cells (useBottomSheetAnimation_mount H visible options) = useBottomSheetAnimation_refs H"
  by (simp add: useBottomSheetAnimation_mount_def useBottomSheetAnimation_def useEffect_def
      useBottomSheetAnimation_effect_def)

lemma sheet_render_log:
  "engine_log (useBottomSheetAnimation H visible options c) =
     (if last_deps c = Some (useBottomSheetAnimation_deps visible options) then engine_log c
      else engine_log c @ useBottomSheetAnimation_effect H visible options)"
  by (simp add: useBottomSheetAnimation_def useEffect_def useBottomSheetAnimation_effect_def)

text \<open>
  Claim C2. The two cells of the bottom-sheet hook start at the screen height
  (\<^verbatim>\<open>slideAnim\<close>) and at 0 (\<^verbatim>\<open>backdropOpacity\<close>), and the hook itself never writes them. At
  the mount, and at every later render that observes a value of \<^verbatim>\<open>visible\<close> other than
  the one of the last effect run, one parallel pair of timing animations is started:
  for \<^verbatim>\<open>visible\<close> true, \<^verbatim>\<open>slideAnim\<close> to 0 and \<^verbatim>\<open>backdropOpacity\<close> to 1, both with the
  \<^verbatim>\<open>duration\<close> option (its value when given, 300 when left out); for \<^verbatim>\<open>visible\<close> false,
  \<^verbatim>\<open>slideAnim\<close> to the screen height and \<^verbatim>\<open>backdropOpacity\<close> to 0, both with the
  \<^verbatim>\<open>closeDuration\<close> option (its value when given, 250 when left out).
\<close>

theorem bottom_sheet_pairs:
  "useBottomSheetAnimation_refs H slideAnim = H
   \<and> useBottomSheetAnimation_refs H backdropOpacity = 0
   \<and> cells (useBottomSheetAnimation_mount H visible options) = useBottomSheetAnimation_refs H
   \<and> engine_log (useBottomSheetAnimation_mount H visible options)
       = useBottomSheetAnimation_effect H visible options
   \<and> (last_deps c = Some (last_visible, last_duration, last_closeDuration) \<and> last_visible \<noteq> visible \<longrightarrow>
        engine_log (useBottomSheetAnimation H visible options c)
          = engine_log c @ useBottomSheetAnimation_effect H visible options)
   \<and> useBottomSheetAnimation_effect H True options =
        [Start (Parallel
          [Timing slideAnim
             \<lparr>toValue = 0, useNativeDriver = True,
              duration = (case bs_duration options of None \<Rightarrow> 300 | Some d \<Rightarrow> d), easing = None\<rparr>,
           Timing backdropOpacity
             \<lparr>toValue = 1, useNativeDriver = True,
              duration = (case bs_duration options of None \<Rightarrow> 300 | Some d \<Rightarrow> d), easing = None\<rparr>])]
   \<and> useBottomSheetAnimation_effect H False options =
        [Start (Parallel
          [Timing slideAnim
             \<lparr>toValue = H, useNativeDriver = True,
              duration = (case bs_closeDuration options of None \<Rightarrow> 250 | Some d \<Rightarrow> d), easing = None\<rparr>,
           Timing backdropOpacity
             \<lparr>toValue = 0, useNativeDriver = True,
              duration = (case bs_closeDuration options of None \<Rightarrow> 250 | Some d \<Rightarrow> d), easing = None\<rparr>])]"
  by (simp add: sheet_mount_log sheet_mount_cells sheet_render_log useBottomSheetAnimation_deps_def
      useBottomSheetAnimation_effect_def bs_duration_of_def bs_closeDuration_of_def the_default_def)

text \<open>
  A sheet on a screen of height 800 with \<^verbatim>\<open>duration\<close> 400 and \<^verbatim>\<open>closeDuration\<close> 200, mounted
  open and then closed: the open pair with 400 ms, then the close pair with 200 ms. With
  the options left out, a sheet mounted closed is given the close pair with 250 ms, and
  one mounted open the open pair with 300 ms.
\<close>

theorem bottom_sheet_pairs_witness:
  "engine_log (useBottomSheetAnimation 800 False \<lparr>bs_duration = Some 400, bs_closeDuration = Some 200\<rparr>
      (useBottomSheetAnimation_mount 800 True \<lparr>bs_duration = Some 400, bs_closeDuration = Some 200\<rparr>))
   = [Start (Parallel
       [Timing slideAnim \<lparr>toValue = 0, useNativeDriver = True, duration = 400, easing = None\<rparr>,
        Timing backdropOpacity \<lparr>toValue = 1, useNativeDriver = True, duration = 400, easing = None\<rparr>]),
      Start (Parallel
       [Timing slideAnim \<lparr>toValue = 800, useNativeDriver = True, duration = 200, easing = None\<rparr>,
        Timing backdropOpacity \<lparr>toValue = 0, useNativeDriver = True, duration = 200, easing = None\<rparr>])]
   \<and> engine_log (useBottomSheetAnimation_mount 800 False \<lparr>bs_duration = None, bs_closeDuration = None\<rparr>)
   = [Start (Parallel
       [Timing slideAnim \<lparr>toValue = 800, useNativeDriver = True, duration = 250, easing = None\<rparr>,
        Timing backdropOpacity \<lparr>toValue = 0, useNativeDriver = True, duration = 250, easing = None\<rparr>])]
   \<and> engine_log (useBottomSheetAnimation_mount 800 True \<lparr>bs_duration = None, bs_closeDuration = None\<rparr>)
   = [Start (Parallel
       [Timing slideAnim \<lparr>toValue = 0, useNativeDriver = True, duration = 300, easing = None\<rparr>,
        Timing backdropOpacity \<lparr>toValue = 1, useNativeDriver = True, duration = 300, easing = None\<rparr>])]
   \<and> map (cells (useBottomSheetAnimation_mount 800 True \<lparr>bs_duration = None, bs_closeDuration = None\<rparr>))
       [slideAnim, backdropOpacity] = [800, 0]"
proof -
  let ?o = "\<lparr>bs_duration = Some 400, bs_closeDuration = Some 200\<rparr>"
  let ?n = "\<lparr>bs_duration = None, bs_closeDuration = None\<rparr>"
  let ?c = "useBottomSheetAnimation_mount 800 True ?o"
  have d: "last_deps ?c = Some (True, 400, 200) \<and> True \<noteq> False"
    by (simp add: useBottomSheetAnimation_mount_def useBottomSheetAnimation_def useEffect_def
      useBottomSheetAnimation_effect_def foldl_perform_last_deps useBottomSheetAnimation_deps_def
      bs_duration_of_def bs_closeDuration_of_def the_default_def)
  note t = bottom_sheet_pairs [where H = 800 and options = ?o]
  note n = bottom_sheet_pairs [where H = 800 and options = ?n]
  from t [where visible = True] have m: "engine_log ?c = useBottomSheetAnimation_effect 800 True ?o"
    by blast
  from t [where visible = False and c = ?c and last_visible = True
      and last_duration = 400 and last_closeDuration = 200] d
  have r: "engine_log (useBottomSheetAnimation 800 False ?o ?c)
          = engine_log ?c @ useBottomSheetAnimation_effect 800 False ?o" by blast
  from n [where visible = False]
  have nf: "engine_log (useBottomSheetAnimation_mount 800 False ?n)
          = useBottomSheetAnimation_effect 800 False ?n" by blast
  from n [where visible = True]
  have nt: "engine_log (useBottomSheetAnimation_mount 800 True ?n)
          = useBottomSheetAnimation_effect 800 True ?n"
    and nc: "cells (useBottomSheetAnimation_mount 800 True ?n) = useBottomSheetAnimation_refs 800"
    by blast+
  from t [where visible = True] n [where visible = True]
  have e: "useBottomSheetAnimation_effect 800 True ?o =
       [Start (Parallel
         [Timing slideAnim \<lparr>toValue = 0, useNativeDriver = True, duration = 400, easing = None\<rparr>,
          Timing backdropOpacity \<lparr>toValue = 1, useNativeDriver = True, duration = 400, easing = None\<rparr>])]"
    "useBottomSheetAnimation_effect 800 False ?o =
       [Start (Parallel
         [Timing slideAnim \<lparr>toValue = 800, useNativeDriver = True, duration = 200, easing = None\<rparr>,
          Timing backdropOpacity \<lparr>toValue = 0, useNativeDriver = True, duration = 200, easing = None\<rparr>])]"
    "useBottomSheetAnimation_effect 800 True ?n =
       [Start (Parallel
         [Timing slideAnim \<lparr>toValue = 0, useNativeDriver = True, duration = 300, easing = None\<rparr>,
          Timing backdropOpacity \<lparr>toValue = 1, useNativeDriver = True, duration = 300, easing = None\<rparr>])]"
    "useBottomSheetAnimation_effect 800 False ?n =
       [Start (Parallel
         [Timing slideAnim \<lparr>toValue = 800, useNativeDriver = True, duration = 250, easing = None\<rparr>,
          Timing backdropOpacity \<lparr>toValue = 0, useNativeDriver = True, duration = 250, easing = None\<rparr>])]"
    by simp_all
  show ?thesis
    by (simp add: r m nf nt nc e)
qed

text \<open>
  Claim C7, as stated, fails: a sheet mounted open with \<^verbatim>\<open>duration\<close> 300 and rendered again,
  still open, with \<^verbatim>\<open>duration\<close> 500 is given a new pair at that render, with the new
  duration. \<^verbatim>\<open>duration\<close> and \<^verbatim>\<open>closeDuration\<close> stand in the dependency array of the effect.
\<close>

theorem sheet_duration_change_counterexample:
  "engine_log (useBottomSheetAnimation 800 True \<lparr>bs_duration = Some 500, bs_closeDuration = None\<rparr>
      (useBottomSheetAnimation_mount 800 True \<lparr>bs_duration = Some 300, bs_closeDuration = None\<rparr>))
   = engine_log (useBottomSheetAnimation_mount 800 True \<lparr>bs_duration = Some 300, bs_closeDuration = None\<rparr>)
     @ [Start (Parallel
       [Timing slideAnim \<lparr>toValue = 0, useNativeDriver = True, duration = 500, easing = None\<rparr>,
        Timing backdropOpacity \<lparr>toValue = 1, useNativeDriver = True, duration = 500, easing = None\<rparr>])]
   \<and> engine_log (useBottomSheetAnimation 800 True \<lparr>bs_duration = Some 500, bs_closeDuration = None\<rparr>
      (useBottomSheetAnimation_mount 800 True \<lparr>bs_duration = Some 300, bs_closeDuration = None\<rparr>))
   \<noteq> engine_log (useBottomSheetAnimation_mount 800 True \<lparr>bs_duration = Some 300, bs_closeDuration = None\<rparr>)"
  by (simp add: useBottomSheetAnimation_mount_def useBottomSheetAnimation_def useEffect_def
      useBottomSheetAnimation_effect_def useBottomSheetAnimation_deps_def
      bs_duration_of_def bs_closeDuration_of_def the_default_def)

text \<open>
  Claim C7, amended. A render of the bottom-sheet hook whose \<^verbatim>\<open>visible\<close>, \<^verbatim>\<open>duration\<close> and
  \<^verbatim>\<open>closeDuration\<close> are those of the last effect run changes nothing. A render whose
  \<^verbatim>\<open>visible\<close> is unchanged and whose \<^verbatim>\<open>duration\<close> or \<^verbatim>\<open>closeDuration\<close> differs from the last
  run re-runs the effect at once: a new parallel pair for the current \<^verbatim>\<open>visible\<close> is
  started at that render, with the new values.
\<close>

theorem sheet_parameter_change_restarts:
  "(last_deps c = Some (useBottomSheetAnimation_deps visible options) \<longrightarrow>
      useBottomSheetAnimation H visible options c = c)
   \<and> (last_deps c = Some (visible, last_duration, last_closeDuration) \<and>
        (last_duration \<noteq> bs_duration_of options \<or> last_closeDuration \<noteq> bs_closeDuration_of options) \<longrightarrow>
      engine_log (useBottomSheetAnimation H visible options c)
        = engine_log c @ useBottomSheetAnimation_effect H visible options)"
proof (intro conjI impI)
  assume "last_deps c = Some (useBottomSheetAnimation_deps visible options)"
  then show "useBottomSheetAnimation H visible options c = c"
    by (simp add: useBottomSheetAnimation_def useEffect_def)
next
  assume "last_deps c = Some (visible, last_duration, last_closeDuration) \<and>
        (last_duration \<noteq> bs_duration_of options \<or> last_closeDuration \<noteq> bs_closeDuration_of options)"
  then have "last_deps c \<noteq> Some (useBottomSheetAnimation_deps visible options)"
    by (auto simp: useBottomSheetAnimation_deps_def)
  then show "engine_log (useBottomSheetAnimation H visible options c)
        = engine_log c @ useBottomSheetAnimation_effect H visible options"
    by (simp add: sheet_render_log)
qed

text \<open>
  An open sheet (height 800, \<^verbatim>\<open>duration\<close> 300): the same render again changes nothing; a
  render with \<^verbatim>\<open>duration\<close> 500 starts the open pair again, with 500 ms.
\<close>

theorem sheet_parameter_change_restarts_witness:
  "useBottomSheetAnimation 800 True \<lparr>bs_duration = Some 300, bs_closeDuration = None\<rparr>
      (useBottomSheetAnimation_mount 800 True \<lparr>bs_duration = Some 300, bs_closeDuration = None\<rparr>)
   = useBottomSheetAnimation_mount 800 True \<lparr>bs_duration = Some 300, bs_closeDuration = None\<rparr>
   \<and> started (useBottomSheetAnimation 800 True \<lparr>bs_duration = Some 500, bs_closeDuration = None\<rparr>
      (useBottomSheetAnimation_mount 800 True \<lparr>bs_duration = Some 300, bs_closeDuration = None\<rparr>))
   = [Parallel
       [Timing slideAnim \<lparr>toValue = 0, useNativeDriver = True, duration = 300, easing = None\<rparr>,
        Timing backdropOpacity \<lparr>toValue = 1, useNativeDriver = True, duration = 300, easing = None\<rparr>],
      Parallel
       [Timing slideAnim \<lparr>toValue = 0, useNativeDriver = True, duration = 500, easing = None\<rparr>,
        Timing backdropOpacity \<lparr>toValue = 1, useNativeDriver = True, duration = 500, easing = None\<rparr>]]"
proof -
  let ?o = "\<lparr>bs_duration = Some 300, bs_closeDuration = None\<rparr>"
  let ?o' = "\<lparr>bs_duration = Some 500, bs_closeDuration = None\<rparr>"
  let ?c = "useBottomSheetAnimation_mount 800 True ?o"
  have d: "last_deps ?c = Some (True, 300, 250)"
    by (simp add: useBottomSheetAnimation_mount_def useBottomSheetAnimation_def useEffect_def
        foldl_perform_last_deps useBottomSheetAnimation_deps_def
        bs_duration_of_def bs_closeDuration_of_def the_default_def)
  have k: "useBottomSheetAnimation_deps True ?o = (True, 300, 250)"
    "bs_duration_of ?o' = 500" "bs_closeDuration_of ?o' = 250"
    by (simp_all add: useBottomSheetAnimation_deps_def bs_duration_of_def bs_closeDuration_of_def
        the_default_def)
  from sheet_parameter_change_restarts [where c = ?c and visible = True and options = ?o
      and last_duration = 300 and last_closeDuration = 250 and H = 800] d k
  have a: "useBottomSheetAnimation 800 True ?o ?c = ?c" by simp
  from sheet_parameter_change_restarts [where c = ?c and visible = True and options = ?o'
      and last_duration = 300 and last_closeDuration = 250 and H = 800] d k
  have b: "engine_log (useBottomSheetAnimation 800 True ?o' ?c)
             = engine_log ?c @ useBottomSheetAnimation_effect 800 True ?o'" by simp
  show ?thesis
    by (simp add: a started_def b sheet_mount_log useBottomSheetAnimation_effect_def
        bs_duration_of_def the_default_def)
qed

section \<open>Splash\<close>



section \<open>Preset factories\<close>

text \<open>
  Claim C5. \<^verbatim>\<open>createTimingAnimation(v, t)\<close> without a preset builds the timing animation of
  the \<^verbatim>\<open>normal\<close> preset: duration 300, easing \<^verbatim>\<open>Easing.out(Easing.quad)\<close>, native driver on.
  With an explicit preset, the animation takes the preset's duration, its easing and its
  \<^verbatim>\<open>useNativeDriver\<close>: every field the preset supplies is used in place of the default.
\<close>

theorem createTimingAnimation_presets:
  "createTimingAnimation v t None
     = Timing v \<lparr>toValue = t, useNativeDriver = True, duration = 300,
                 easing = Some (Easing_out Easing_quad)\<rparr>
   \<and> createTimingAnimation v t None = createTimingAnimation v t (Some AnimationPresets_normal)
   \<and> createTimingAnimation v t
        (Some \<lparr>at_duration = d, at_easing = Some e, at_useNativeDriver = Some b\<rparr>)
     = Timing v \<lparr>toValue = t, useNativeDriver = b, duration = d, easing = Some e\<rparr>
   \<and> createTimingAnimation v t (Some p)
     = Timing v \<lparr>toValue = t, useNativeDriver = the_default True (at_useNativeDriver p),
                 duration = at_duration p, easing = at_easing p\<rparr>"
  by (simp add: createTimingAnimation_def AnimationPresets_normal_def the_default_def)

section \<open>Readiness gate\<close>

lemma setIsReady_true_fields [simp]:
  "timer (setIsReady_true s) = timer s"
  "frame_queue (setIsReady_true s) = frame_queue s"
  "clock (setIsReady_true s) = clock s"
  "frames_since_timer (setIsReady_true s) = frames_since_timer s"
  "mounted (setIsReady_true s) = mounted s"
  "setIsReady_calls (setIsReady_true s) = Suc (setIsReady_calls s)"
  "isReady (setIsReady_true s) = (mounted s \<or> isReady s)"
  by (simp_all add: setIsReady_true_def)

lemma ready_run_Nil [simp]: "ready_run s [] = s"
  by (simp add: ready_run_def)

lemma ready_run_Cons [simp]: "ready_run s (e # es) = ready_run (ready_step s e) es"
  by (simp add: ready_run_def)

lemma ready_run_append: "ready_run s (es @ es') = ready_run (ready_run s es) es'"
  by (simp add: ready_run_def)

lemma setIsReady_true_keeps: "isReady s \<Longrightarrow> isReady (setIsReady_true s)"
  by (simp add: setIsReady_true_def)

lemma run_callback_keeps: "isReady s \<Longrightarrow> isReady (run_callback s cb)"
  by (cases cb) (simp_all add: setIsReady_true_keeps)

lemma foldl_run_callback_keeps: "isReady s \<Longrightarrow> isReady (foldl run_callback s cbs)"
  by (induction cbs arbitrary: s) (simp_all add: run_callback_keeps)

lemma ready_step_keeps: "isReady s \<Longrightarrow> isReady (ready_step s e)"
proof (cases e)
  case TimerFire
  assume "isReady s"
  then have "isReady (run_callback (s\<lparr>timer := None, frames_since_timer := 0\<rparr>) cb)" for cb
    by (intro run_callback_keeps) simp
  with \<open>isReady s\<close> TimerFire show ?thesis
    by (simp split: option.splits prod.splits)
next
  case AnimationFrame
  assume "isReady s"
  then show ?thesis unfolding AnimationFrame
    by (simp add: foldl_run_callback_keeps)
qed simp_all

lemma ready_run_keeps: "isReady s \<Longrightarrow> isReady (ready_run s es)"
  by (induction es arbitrary: s) (simp_all add: ready_step_keeps)

lemma ready_inv_mount: "ready_inv delay cb (ready_mount delay cb)"
  by (simp add: ready_inv_def ready_mount_def)

lemma ready_inv_step: "ready_inv delay cb0 s \<Longrightarrow> ready_inv delay cb0 (ready_step s e)"
proof (cases e)
  case (Elapse ms)
  assume "ready_inv delay cb0 s"
  then show ?thesis unfolding Elapse ready_inv_def
    by (cases "timer s"; cases "frame_queue s") (auto split: if_splits)
next
  case TimerFire
  assume i: "ready_inv delay cb0 s"
  show ?thesis
  proof (cases "timer s")
    case None
    with i show ?thesis unfolding TimerFire by simp
  next
    case (Some p)
    obtain due cb where p: "p = (due, cb)" by (cases p)
    from i Some p have f: "due = delay" "cb = cb0" "frame_queue s = []" "setIsReady_calls s = 0"
      "\<not> isReady s"
      by (simp_all add: ready_inv_def)
    show ?thesis
    proof (cases "due \<le> clock s")
      case False
      with i Some p show ?thesis unfolding TimerFire by simp
    next
      case True
      with Some p f show ?thesis unfolding TimerFire
        by (cases cb0) (simp_all add: ready_inv_def)
    qed
  qed
next
  case AnimationFrame
  assume i: "ready_inv delay cb0 s"
  show ?thesis
  proof (cases "frame_queue s")
    case Nil
    with i show ?thesis unfolding AnimationFrame ready_inv_def
      by (cases "timer s") (auto split: if_splits)
  next
    case (Cons cb rest)
    with i have f: "rest = []" "setIsReady_calls s = 0" "\<not> isReady s" "delay \<le> clock s"
      "frames_needed cb0 = frames_since_timer s + Suc (frames_needed cb)" "timer s = None"
      by (auto simp: ready_inv_def split: option.splits)
    with Cons show ?thesis unfolding AnimationFrame
      by (cases cb) (simp_all add: ready_inv_def)
  qed
next
  case Unmount
  assume "ready_inv delay cb0 s"
  then show ?thesis unfolding Unmount ready_inv_def
    by (cases "timer s"; cases "frame_queue s"; cases "mounted s") (auto split: if_splits)
qed

lemma ready_inv_run: "ready_inv delay cb0 s \<Longrightarrow> ready_inv delay cb0 (ready_run s es)"
  by (induction es arbitrary: s) (simp_all add: ready_inv_step)

lemma ready_inv_calls: "ready_inv delay cb0 s \<Longrightarrow> setIsReady_calls s \<le> 1"
  by (simp add: ready_inv_def)

lemma ready_inv_ready:
  "ready_inv delay cb0 s \<Longrightarrow> isReady s \<Longrightarrow> delay \<le> clock s \<and> frames_needed cb0 \<le> frames_since_timer s"
  by (simp add: ready_inv_def)

lemma frames_flip:
  "mounted s \<Longrightarrow> timer s = None \<Longrightarrow> frame_queue s = [cb] \<Longrightarrow>
   isReady (ready_run s (replicate (Suc (frames_needed cb)) AnimationFrame))"
proof (induction cb arbitrary: s)
  case SetIsReadyTrue
  then show ?case by simp
next
  case (RequestAnimationFrame cb)
  let ?s = "ready_step s AnimationFrame"
  from RequestAnimationFrame.prems
  have "mounted ?s" "timer ?s = None" "frame_queue ?s = [cb]" by simp_all
  from RequestAnimationFrame.IH [OF this] show ?case by simp
qed

lemma mount_flips:
  "isReady (ready_run (ready_mount delay cb)
     (Elapse delay # TimerFire # replicate (frames_needed cb) AnimationFrame))"
proof (cases cb)
  case SetIsReadyTrue
  then show ?thesis by (simp add: ready_mount_def)
next
  case (RequestAnimationFrame cb')
  let ?s = "ready_step (ready_step (ready_mount delay cb) (Elapse delay)) TimerFire"
  have "mounted ?s" "timer ?s = None" "frame_queue ?s = [cb']"
    by (simp_all add: ready_mount_def RequestAnimationFrame)
  from frames_flip [OF this] show ?thesis by (simp add: RequestAnimationFrame)
qed

text \<open>
  Claim C9. The flag of a mounted readiness gate is false at the mount. In every state
  the gate can reach, whatever the order of elapsing time, timer callback, animation
  frames and unmount: once the flag reads true it reads true after any further events;
  the setter has been called at most once; and the flag is true only when the delay has
  elapsed and the deferred frames have run since the timer callback. And the flag does
  become true: after the delay, the timer callback and the frames of the chain, it reads
  true. This holds for every delay and every chain of frame requests, so for the three
  copies of the hook (500 ms and 3 frames, 800 ms and 4, 1000 ms and 5).
\<close>

theorem ready_flag_latches:
  "\<not> isReady (ready_mount delay cb)
   \<and> (isReady (ready_run (ready_mount delay cb) es) \<longrightarrow>
        isReady (ready_run (ready_mount delay cb) (es @ es')))
   \<and> setIsReady_calls (ready_run (ready_mount delay cb) es) \<le> 1
   \<and> (isReady (ready_run (ready_mount delay cb) es) \<longrightarrow>
        delay \<le> clock (ready_run (ready_mount delay cb) es) \<and>
        frames_needed cb \<le> frames_since_timer (ready_run (ready_mount delay cb) es))
   \<and> isReady (ready_run (ready_mount delay cb)
        (Elapse delay # TimerFire # replicate (frames_needed cb) AnimationFrame))"
proof -
  note i = ready_inv_run [OF ready_inv_mount, of delay cb es]
  show ?thesis
    using ready_inv_calls [OF i] ready_inv_ready [OF i] mount_flips [of delay cb]
      ready_run_keeps [of "ready_run (ready_mount delay cb) es" es']
    by (simp add: ready_run_append) (simp add: ready_mount_def)
qed

text \<open>
  The first copy of the hook: true after 500 ms, the timer callback and three frames;
  still true after a further frame, an unmount and more time.
\<close>

theorem ready_flag_latches_witness:
  "isReady (ready_run useReanimatedReady
      [Elapse 500, TimerFire, AnimationFrame, AnimationFrame, AnimationFrame])
   \<and> isReady (ready_run useReanimatedReady
      ([Elapse 500, TimerFire, AnimationFrame, AnimationFrame, AnimationFrame]
        @ [AnimationFrame, Unmount, Elapse 5]))
   \<and> setIsReady_calls (ready_run useReanimatedReady
      [Elapse 500, TimerFire, AnimationFrame, AnimationFrame, AnimationFrame]) \<le> 1
   \<and> 500 \<le> clock (ready_run useReanimatedReady
      [Elapse 500, TimerFire, AnimationFrame, AnimationFrame, AnimationFrame])"
proof -
  let ?cb = "RequestAnimationFrame (RequestAnimationFrame (RequestAnimationFrame SetIsReadyTrue))"
  let ?es = "[Elapse 500, TimerFire, AnimationFrame, AnimationFrame, AnimationFrame]"
  have r: "isReady (ready_run (ready_mount 500 ?cb) ?es)"
    by (simp add: ready_mount_def)
  from ready_flag_latches [of 500 ?cb ?es "[AnimationFrame, Unmount, Elapse 5]"] r
  show ?thesis
    unfolding useReanimatedReady_def by blast
qed

text \<open>
  The cleanup does cancel the pending flip while the timer is pending: when the
  component unmounts in a state whose timer has not fired, the setter is never called.
\<close>

lemma cancelled_run:
  "timer s = None \<Longrightarrow> frame_queue s = [] \<Longrightarrow>
   setIsReady_calls (ready_run s es) = setIsReady_calls s \<and> isReady (ready_run s es) = isReady s"
proof (induction es arbitrary: s)
  case Nil
  then show ?case by simp
next
  case (Cons e es)
  let ?s = "ready_step s e"
  from Cons.prems
  have "timer ?s = None \<and> frame_queue ?s = [] \<and> setIsReady_calls ?s = setIsReady_calls s
        \<and> isReady ?s = isReady s"
    by (cases e) simp_all
  with Cons.IH [of ?s] show ?case by simp
qed

lemma unmount_during_delay_cancels:
  assumes "timer (ready_run (ready_mount delay cb) es1) \<noteq> None"
  shows "setIsReady_calls (ready_run (ready_mount delay cb) (es1 @ Unmount # es2)) = 0
       \<and> \<not> isReady (ready_run (ready_mount delay cb) (es1 @ Unmount # es2))"
proof -
  let ?s = "ready_run (ready_mount delay cb) es1"
  from ready_inv_run [OF ready_inv_mount, of delay cb es1] assms
  have f: "mounted ?s" "frame_queue ?s = []" "setIsReady_calls ?s = 0" "\<not> isReady ?s"
    by (auto simp: ready_inv_def)
  then have "timer (ready_step ?s Unmount) = None" "frame_queue (ready_step ?s Unmount) = []"
    by simp_all
  from cancelled_run [OF this, of es2] f show ?thesis
    by (simp add: ready_run_append)
qed

text \<open>
  Claim C8 asks that an unmount before the flip discards the pending transition,
  during the delay and during the deferred frames alike. The cleanup clears the timer
  only. Once the timer callback has run, the chain of frame callbacks is out of its
  reach: in each copy of the hook, an unmount between the timer callback and the last
  frame is followed by a call of the setter on the unmounted component.
\<close>

theorem unmount_during_frames_still_flips:
  "setIsReady_after_unmount (ready_run useReanimatedReady
      [Elapse 500, TimerFire, Unmount, AnimationFrame, AnimationFrame, AnimationFrame]) = 1
   \<and> setIsReady_after_unmount (ready_run useReanimatedReady_800
      [Elapse 800, TimerFire, AnimationFrame, Unmount, AnimationFrame, AnimationFrame, AnimationFrame]) = 1
   \<and> setIsReady_after_unmount (ready_run useReanimatedReady_1000
      [Elapse 1000, TimerFire, AnimationFrame, AnimationFrame, AnimationFrame, AnimationFrame, Unmount, AnimationFrame]) = 1"
  by (simp add: useReanimatedReady_def useReanimatedReady_800_def useReanimatedReady_1000_def
      ready_mount_def setIsReady_true_def)

section \<open>The worklet variant: zero durations\<close>

text \<open>
  Claim C10. In \<^verbatim>\<open>fadeIn\<close>, \<^verbatim>\<open>fadeOut\<close>, \<^verbatim>\<open>slideInUp\<close>, \<^verbatim>\<open>slideInDown\<close>, \<^verbatim>\<open>slideInLeft\<close> and
  \<^verbatim>\<open>slideInRight\<close>, an explicit timing config whose duration is 0 (the exported
  \<^verbatim>\<open>INSTANT\<close> constant) yields a transition of 300 ms, the \<^verbatim>\<open>NORMAL\<close> constant: the duration
  goes through \<^verbatim>\<open>timing.duration || NORMAL\<close>, and 0 is falsy. No config at all makes any of
  the six functions issue a transition of duration 0.
\<close>

theorem instant_duration_replaced:
  "DURATION_INSTANT = 0
   \<and> fadeIn (Some (c\<lparr>wt_duration := Some DURATION_INSTANT\<rparr>))
       = [(opacity, WithTiming 1 300 Easing_ease)]
   \<and> fadeOut (Some (c\<lparr>wt_duration := Some DURATION_INSTANT\<rparr>))
       = [(opacity, WithTiming 0 300 Easing_ease)]
   \<and> slideInUp dst (Some (c\<lparr>wt_duration := Some DURATION_INSTANT\<rparr>))
       = [(translateY, Number (the_default 100 dst)),
          (translateY, WithTiming 0 300 (Easing_out Easing_cubic))]
   \<and> slideInDown dst (Some (c\<lparr>wt_duration := Some DURATION_INSTANT\<rparr>))
       = [(translateY, Number (- the_default 100 dst)),
          (translateY, WithTiming 0 300 (Easing_out Easing_cubic))]
   \<and> slideInLeft dst (Some (c\<lparr>wt_duration := Some DURATION_INSTANT\<rparr>))
       = [(translateX, Number (- the_default 100 dst)),
          (translateX, WithTiming 0 300 (Easing_out Easing_cubic))]
   \<and> slideInRight dst (Some (c\<lparr>wt_duration := Some DURATION_INSTANT\<rparr>))
       = [(translateX, Number (the_default 100 dst)),
          (translateX, WithTiming 0 300 (Easing_out Easing_cubic))]
   \<and> 0 \<notin> set (timing_durations (fadeIn config))
   \<and> 0 \<notin> set (timing_durations (fadeOut config))
   \<and> 0 \<notin> set (timing_durations (slideInUp dst config))
   \<and> 0 \<notin> set (timing_durations (slideInDown dst config))
   \<and> 0 \<notin> set (timing_durations (slideInLeft dst config))
   \<and> 0 \<notin> set (timing_durations (slideInRight dst config))"
proof -
  have n: "number_or a DURATION_NORMAL \<noteq> 0" for a
    by (simp add: number_or_def DURATION_NORMAL_def split: option.splits)
  have z: "number_or (Some DURATION_INSTANT) DURATION_NORMAL = 300"
    by (simp add: number_or_def DURATION_NORMAL_def DURATION_INSTANT_def)
  have n': "0 \<noteq> number_or a DURATION_NORMAL" for a
    using n [of a] by simp
  show ?thesis
    by (simp add: fadeIn_def fadeOut_def slideInUp_def slideInDown_def slideInLeft_def
        slideInRight_def object_or_def z n' Let_def) (simp add: DURATION_INSTANT_def)
qed

end
